theory Spec2Isabelle
  imports Complex_Main
begin

section \<open>The particle background of \<^verbatim>\<open>frontend/script.js\<close>\<close>

text \<open>
  The script holds its particle field in the closure of one anonymous function: the array
  \<^verbatim>\<open>particles\<close>, the canvas (of which only \<^verbatim>\<open>width\<close> and \<^verbatim>\<open>height\<close> are
  used) and the constants \<^verbatim>\<open>NUM_PARTICLES\<close> and \<^verbatim>\<open>MAX_DISTANCE\<close>. The closure
  becomes the record \<open>state\<close>, passed to and returned by every operation.
\<close>

subsection \<open>Numbers\<close>

text \<open>
  A JavaScript number is a binary64 floating-point number. A finite one is a real, and
  \<^verbatim>\<open>+\<close>, \<^verbatim>\<open>-\<close>, \<^verbatim>\<open>*\<close>, \<^verbatim>\<open>/\<close> and \<^verbatim>\<open>Math.sqrt\<close> (the IEEE square
  root) return the exact result rounded to the nearest binary64 number, ties to the even
  significand. Every function of the model takes this rounding as its first argument
  \<open>rd\<close> and applies it where the code computes: what is proved for every \<open>rd\<close> does
  not depend on how the arithmetic rounds. A decimal literal that is no binary fraction (\<^verbatim>\<open>0.6\<close>, \<^verbatim>\<open>0.2\<close>) and
  \<^verbatim>\<open>Math.PI\<close> denote the rounded value. The comparisons are exact. The \<^verbatim>\<open>width\<close>
  and \<^verbatim>\<open>height\<close> attributes of a canvas element are unsigned integers, hence \<open>nat\<close>.

  \<open>round_double\<close> is the rounding of binary64: 53 significant bits, the unit in the last
  place no finer than \<open>2 powr - 1074\<close>. It is a real also where binary64 overflows to an
  infinity, from \<open>2 ^ 1024\<close> on; no value of the examples comes near that.
\<close>

definition round_half_even :: "real \<Rightarrow> int" where
  "round_half_even q =
     (let f = \<lfloor>q\<rfloor>; r = q - of_int f
      in if r < 1 / 2 then f else if r > 1 / 2 then f + 1 else if even f then f else f + 1)"

definition ulp_exponent :: "real \<Rightarrow> int" where
  "ulp_exponent x = max (\<lfloor>log 2 \<bar>x\<bar>\<rfloor> - 52) (- 1074)"

definition round_double :: "real \<Rightarrow> real" where
  "round_double x =
     (if x = 0 then 0
      else sgn x * of_int (round_half_even (\<bar>x\<bar> / 2 powr of_int (ulp_exponent x)))
             * 2 powr of_int (ulp_exponent x))"

subsection \<open>Data\<close>

record particle =
  p_x :: real
  p_y :: real
  p_vx :: real
  p_vy :: real
  p_radius :: real
  p_opacity :: real
  p_color :: string

record state =
  particles :: "particle list"
  canvas_width :: nat
  canvas_height :: nat

definition NUM_PARTICLES :: nat where
  "NUM_PARTICLES = 80"

definition MAX_DISTANCE :: real where
  "MAX_DISTANCE = 140"

subsection \<open>resizeCanvas\<close>

text \<open>
  \<^verbatim>\<open>canvas.width = window.innerWidth; canvas.height = window.innerHeight;\<close>
  The window's inner size is the environment's input.
\<close>

definition resizeCanvas :: "nat \<Rightarrow> nat \<Rightarrow> state \<Rightarrow> state" where
  "resizeCanvas innerWidth innerHeight s =
     s\<lparr>canvas_width := innerWidth, canvas_height := innerHeight\<rparr>"

subsection \<open>updateParticles\<close>

text \<open>
  The body of the loop, one assignment after the other, on one particle:
  \<^verbatim>\<open>p.x += p.vx; p.y += p.vy;
  if (p.x < 0) p.x = canvas.width;
  if (p.x > canvas.width) p.x = 0;
  if (p.y < 0) p.y = canvas.height;
  if (p.y > canvas.height) p.y = 0;\<close>
  The two sums are rounded when they are stored, and the four checks read the stored
  coordinates.
\<close>

definition updateParticle :: "(real \<Rightarrow> real) \<Rightarrow> nat \<Rightarrow> nat \<Rightarrow> particle \<Rightarrow> particle" where
  "updateParticle rd w h p =
     (let p1 = p\<lparr>p_x := rd (p_x p + p_vx p)\<rparr>;
          p2 = p1\<lparr>p_y := rd (p_y p1 + p_vy p1)\<rparr>;
          p3 = (if p_x p2 < 0 then p2\<lparr>p_x := real w\<rparr> else p2);
          p4 = (if p_x p3 > real w then p3\<lparr>p_x := 0\<rparr> else p3);
          p5 = (if p_y p4 < 0 then p4\<lparr>p_y := real h\<rparr> else p4);
          p6 = (if p_y p5 > real h then p5\<lparr>p_y := 0\<rparr> else p5)
      in p6)"

text \<open>\<^verbatim>\<open>for (const p of particles) { ... }\<close>: every particle in turn, in place.\<close>

fun updateLoop :: "(real \<Rightarrow> real) \<Rightarrow> nat \<Rightarrow> nat \<Rightarrow> particle list \<Rightarrow> particle list" where
  "updateLoop rd w h [] = []"
| "updateLoop rd w h (p # ps) = updateParticle rd w h p # updateLoop rd w h ps"

definition updateParticles :: "(real \<Rightarrow> real) \<Rightarrow> state \<Rightarrow> state" where
  "updateParticles rd s =
     s\<lparr>particles := updateLoop rd (canvas_width s) (canvas_height s) (particles s)\<rparr>"

subsection \<open>createParticles\<close>

text \<open>
  \<^verbatim>\<open>Math.random()\<close> is the only input of \<^verbatim>\<open>createParticles\<close>. The model takes
  the sequence of its results as a function \<open>rnd\<close>: \<open>rnd k\<close> is what the \<open>k\<close>-th call
  returns. The object literal evaluates its seven properties in the order written, so
  particle \<open>i\<close> consumes the draws \<open>7 * i\<close> to \<open>7 * i + 6\<close>.
\<close>

definition newParticle :: "(real \<Rightarrow> real) \<Rightarrow> (nat \<Rightarrow> real) \<Rightarrow> nat \<Rightarrow> nat \<Rightarrow> nat \<Rightarrow> particle" where
  "newParticle rd rnd w h i =
     \<lparr>p_x = rd (rnd (7 * i) * real w),
      p_y = rd (rnd (7 * i + 1) * real h),
      p_vx = rd (rd (rnd (7 * i + 2) - 0.5) * rd 0.6),
      p_vy = rd (rd (rnd (7 * i + 3) - 0.5) * rd 0.6),
      p_radius = rd (1.5 + rd (rnd (7 * i + 4) * 2)),
      p_opacity = rd (rd 0.2 + rd (rnd (7 * i + 5) * rd 0.6)),
      p_color = (if rnd (7 * i + 6) > 0.5 then ''#00d4ff'' else ''#7b2cbf'')\<rparr>"

text \<open>\<^verbatim>\<open>for (let i = 0; i < NUM_PARTICLES; i++) particles.push({...})\<close>\<close>

function createLoop ::
  "(real \<Rightarrow> real) \<Rightarrow> (nat \<Rightarrow> real) \<Rightarrow> nat \<Rightarrow> nat \<Rightarrow> nat \<Rightarrow> particle list \<Rightarrow> particle list" where
  "createLoop rd rnd w h i ps =
     (if i < NUM_PARTICLES
      then createLoop rd rnd w h (i + 1) (ps @ [newParticle rd rnd w h i])
      else ps)"
  by pat_completeness auto
termination
  by (relation "measure (\<lambda>(rd, rnd, w, h, i, ps). NUM_PARTICLES - i)") auto

declare createLoop.simps [simp del]

definition createParticles :: "(real \<Rightarrow> real) \<Rightarrow> (nat \<Rightarrow> real) \<Rightarrow> state \<Rightarrow> state" where
  "createParticles rd rnd s =
     s\<lparr>particles := createLoop rd rnd (canvas_width s) (canvas_height s) 0 []\<rparr>"

subsection \<open>drawParticles\<close>

text \<open>
  What the script does to the outside is a sequence of calls: on the 2D context and, in
  \<^verbatim>\<open>animate\<close>, to \<^verbatim>\<open>requestAnimationFrame\<close>. A style string
  \<^verbatim>\<open>rgba(${rgb},${a})\<close> is kept as its two parts.
\<close>

datatype call =
    ClearRect real real real real
  | BeginPath
  | Arc real real real real real
  | FillStyle string real
  | Fill
  | StrokeStyle string real
  | LineWidth real
  | MoveTo real real
  | LineTo real real
  | Stroke
  | RequestAnimationFrame

text \<open>The first loop's body: one filled circle.\<close>

definition circleBody :: "(real \<Rightarrow> real) \<Rightarrow> particle \<Rightarrow> call list" where
  "circleBody rd p =
     (let rgb = (if p_color p = ''#00d4ff'' then ''0,212,255'' else ''123,44,191'')
      in [BeginPath, Arc (p_x p) (p_y p) (p_radius p) 0 (rd (rd pi * 2)),
          FillStyle rgb (p_opacity p), Fill])"

fun circleLoop :: "(real \<Rightarrow> real) \<Rightarrow> particle list \<Rightarrow> call list" where
  "circleLoop rd [] = []"
| "circleLoop rd (p # ps) = circleBody rd p @ circleLoop rd ps"

text \<open>
  The body of the inner loop of the second pair of loops, on \<open>a = particles[i]\<close> and
  \<open>b = particles[j]\<close>. Each difference, product, sum, root and quotient is rounded.
\<close>

definition linkBody :: "(real \<Rightarrow> real) \<Rightarrow> particle \<Rightarrow> particle \<Rightarrow> call list" where
  "linkBody rd a b =
     (let dx = rd (p_x a - p_x b);
          dy = rd (p_y a - p_y b);
          dist = rd (sqrt (rd (rd (dx * dx) + rd (dy * dy))))
      in if dist < MAX_DISTANCE
         then (let alpha = rd (1 - rd (dist / MAX_DISTANCE))
               in [StrokeStyle ''0, 212, 255'' (rd (alpha * 0.25)), LineWidth 0.5, BeginPath,
                   MoveTo (p_x a) (p_y a), LineTo (p_x b) (p_y b), Stroke])
         else [])"

text \<open>\<^verbatim>\<open>for (let j = i + 1; j < particles.length; j++)\<close>, entered at \<open>j\<close>.\<close>

function innerLoop :: "(real \<Rightarrow> real) \<Rightarrow> particle list \<Rightarrow> nat \<Rightarrow> nat \<Rightarrow> call list" where
  "innerLoop rd ps i j =
     (if j < length ps then linkBody rd (ps ! i) (ps ! j) @ innerLoop rd ps i (j + 1)
      else [])"
  by pat_completeness auto
termination
  by (relation "measure (\<lambda>(rd, ps, i, j). length ps - j)") auto

declare innerLoop.simps [simp del]

text \<open>\<^verbatim>\<open>for (let i = 0; i < particles.length; i++)\<close>, entered at \<open>i\<close>.\<close>

function outerLoop :: "(real \<Rightarrow> real) \<Rightarrow> particle list \<Rightarrow> nat \<Rightarrow> call list" where
  "outerLoop rd ps i =
     (if i < length ps then innerLoop rd ps i (i + 1) @ outerLoop rd ps (i + 1) else [])"
  by pat_completeness auto
termination
  by (relation "measure (\<lambda>(rd, ps, i). length ps - i)") auto

declare outerLoop.simps [simp del]

definition drawParticles :: "(real \<Rightarrow> real) \<Rightarrow> state \<Rightarrow> call list" where
  "drawParticles rd s =
     ClearRect 0 0 (real (canvas_width s)) (real (canvas_height s))
       # circleLoop rd (particles s) @ outerLoop rd (particles s) 0"

subsection \<open>animate\<close>

text \<open>
  One run of \<^verbatim>\<open>animate\<close>: the new state and the calls made, in order. The callback
  handed to \<^verbatim>\<open>requestAnimationFrame\<close> is \<^verbatim>\<open>animate\<close> itself.
\<close>

definition animate :: "(real \<Rightarrow> real) \<Rightarrow> state \<Rightarrow> state \<times> call list" where
  "animate rd s =
     (let s1 = updateParticles rd s;
          drawn = drawParticles rd s1
      in (s1, drawn @ [RequestAnimationFrame]))"

subsection \<open>The event loop\<close>

text \<open>
  After start-up the browser runs the script's two callbacks, one at a time and never
  interleaved: \<^verbatim>\<open>animate\<close> on an animation frame and \<^verbatim>\<open>resizeCanvas\<close> on a
  \<^verbatim>\<open>resize\<close> event, which carries the window's new inner size.
\<close>

datatype event = Frame | Resize nat nat

fun step :: "(real \<Rightarrow> real) \<Rightarrow> state \<Rightarrow> event \<Rightarrow> state" where
  "step rd s Frame = fst (animate rd s)"
| "step rd s (Resize innerWidth innerHeight) = resizeCanvas innerWidth innerHeight s"

fun run :: "(real \<Rightarrow> real) \<Rightarrow> state \<Rightarrow> event list \<Rightarrow> state" where
  "run rd s [] = s"
| "run rd s (e # es) = run rd (step rd s e) es"

subsection \<open>Notions of the specification\<close>

text \<open>The Euclidean distance between the positions of two particles.\<close>

definition distance :: "particle \<Rightarrow> particle \<Rightarrow> real" where
  "distance a b = sqrt ((p_x a - p_x b)\<^sup>2 + (p_y a - p_y b)\<^sup>2)"

text \<open>The same distance in the rounded arithmetic, operation by operation.\<close>

definition computed_distance :: "(real \<Rightarrow> real) \<Rightarrow> particle \<Rightarrow> particle \<Rightarrow> real" where
  "computed_distance rd a b =
     rd (sqrt (rd (rd (rd (p_x a - p_x b) * rd (p_x a - p_x b))
                   + rd (rd (p_y a - p_y b) * rd (p_y a - p_y b)))))"

text \<open>The index pairs \<open>(i, j)\<close> with \<open>i < j < n\<close>, row by row.\<close>

definition pairs :: "nat \<Rightarrow> (nat \<times> nat) list" where
  "pairs n = concat (map (\<lambda>i. map (Pair i) [i + 1..<n]) [0..<n])"

text \<open>The alpha values of the stroke styles set by a sequence of calls.\<close>

fun strokeAlphas :: "call list \<Rightarrow> real list" where
  "strokeAlphas [] = []"
| "strokeAlphas (StrokeStyle rgb a # cs) = a # strokeAlphas cs"
| "strokeAlphas (c # cs) = strokeAlphas cs"

text \<open>
  A circle is complete at its \<^verbatim>\<open>fill()\<close>, a link at its \<^verbatim>\<open>stroke()\<close>. Links come
  before circles when no stroke follows the first fill, and circles before links when no
  fill follows the first stroke.
\<close>

fun isStroke :: "call \<Rightarrow> bool" where
  "isStroke Stroke = True"
| "isStroke c = False"

fun isFill :: "call \<Rightarrow> bool" where
  "isFill Fill = True"
| "isFill c = False"

definition links_before_circles :: "call list \<Rightarrow> bool" where
  "links_before_circles cs = (\<not> list_ex isStroke (dropWhile (\<lambda>c. \<not> isFill c) cs))"

definition circles_before_links :: "call list \<Rightarrow> bool" where
  "circles_before_links cs = (\<not> list_ex isFill (dropWhile (\<lambda>c. \<not> isStroke c) cs))"

text \<open>What a particle is given at creation besides its position.\<close>

definition attributes :: "particle \<Rightarrow> real \<times> real \<times> real \<times> real \<times> string" where
  "attributes p = (p_vx p, p_vy p, p_radius p, p_opacity p, p_color p)"

subsection \<open>Example states\<close>

text \<open>
  All on an 800 by 600 canvas, with binary64 numbers as coordinates and velocities.
  \<open>cornerParticle\<close> leaves through the left and the bottom edge in one frame.
  \<open>rightParticle\<close> is at \<^verbatim>\<open>800 - 0.05\<close> and moves right by \<^verbatim>\<open>0.3\<close>, both as the
  script would compute them. \<open>pairState\<close> holds two particles at distance 5 and a third
  far away. \<open>grazingParticle\<close> approaches the right edge so that the exact sum exceeds
  the width and the stored sum is the width. \<open>thresholdParticle\<close> is just less than 140
  away from the origin and stands with a particle at the origin in \<open>thresholdState\<close>;
  \<open>tinyParticle\<close> is \<open>35 / 2 ^ 58\<close> away from the origin and stands with two particles
  at the origin in \<open>tinyState\<close>.
\<close>

definition cornerParticle :: particle where
  "cornerParticle =
     \<lparr>p_x = 0.125, p_y = 599.875, p_vx = - 0.25, p_vy = 0.25,
      p_radius = 2, p_opacity = 0.5, p_color = ''#00d4ff''\<rparr>"

definition cornerState :: state where
  "cornerState = \<lparr>particles = [cornerParticle], canvas_width = 800, canvas_height = 600\<rparr>"

definition rightParticle :: particle where
  "rightParticle =
     \<lparr>p_x = round_double (800 - round_double 0.05), p_y = 300,
      p_vx = round_double 0.3, p_vy = 0,
      p_radius = 2, p_opacity = 0.5, p_color = ''#7b2cbf''\<rparr>"

definition rightState :: state where
  "rightState = \<lparr>particles = [rightParticle], canvas_width = 800, canvas_height = 600\<rparr>"

definition stillParticle :: "real \<Rightarrow> real \<Rightarrow> particle" where
  "stillParticle x y =
     \<lparr>p_x = x, p_y = y, p_vx = 0, p_vy = 0,
      p_radius = 2, p_opacity = 0.5, p_color = ''#00d4ff''\<rparr>"

definition pairState :: state where
  "pairState =
     \<lparr>particles = [stillParticle 100 100, stillParticle 103 104, stillParticle 500 500],
      canvas_width = 800, canvas_height = 600\<rparr>"

definition grazingParticle :: particle where
  "grazingParticle =
     \<lparr>p_x = 799.75, p_y = 300, p_vx = 0.25 + 1 / 2 ^ 54, p_vy = 0,
      p_radius = 2, p_opacity = 0.5, p_color = ''#00d4ff''\<rparr>"

definition grazingState :: state where
  "grazingState = \<lparr>particles = [grazingParticle], canvas_width = 800, canvas_height = 600\<rparr>"

definition thresholdParticle :: particle where
  "thresholdParticle = stillParticle 84 (112 - 1 / 2 ^ 46)"

definition tinyParticle :: particle where
  "tinyParticle = stillParticle (35 / 2 ^ 58) 0"

definition thresholdState :: state where
  "thresholdState =
     \<lparr>particles = [stillParticle 0 0, thresholdParticle],
      canvas_width = 800, canvas_height = 600\<rparr>"

definition tinyState :: state where
  "tinyState =
     \<lparr>particles = [stillParticle 0 0, stillParticle 0 0, tinyParticle],
      canvas_width = 800, canvas_height = 600\<rparr>"

section \<open>Properties\<close>

subsection \<open>Rounding\<close>

lemma rhe_of_int: "round_half_even (of_int n) = n"
  by (simp add: round_half_even_def)

lemma rhe_lower: "\<lfloor>q\<rfloor> \<le> round_half_even q"
  by (simp add: round_half_even_def Let_def)

lemma rhe_upper: "round_half_even q \<le> \<lfloor>q\<rfloor> + 1"
  by (simp add: round_half_even_def Let_def)

lemma rhe_mono: "round_half_even q \<le> round_half_even q'" if "q \<le> q'"
proof (cases "\<lfloor>q\<rfloor> = \<lfloor>q'\<rfloor>")
  case True
  with that show ?thesis
    by (auto simp: round_half_even_def Let_def)
next
  case False
  with that have "\<lfloor>q\<rfloor> + 1 \<le> \<lfloor>q'\<rfloor>"
    using floor_mono [of q q'] by linarith
  with rhe_upper [of q] rhe_lower [of q'] show ?thesis
    by linarith
qed

lemma rhe_ge: "n \<le> round_half_even q" if "of_int n \<le> q"
  using rhe_mono [OF that] by (simp add: rhe_of_int)

lemma rhe_le: "round_half_even q \<le> n" if "q \<le> of_int n"
  using rhe_mono [OF that] by (simp add: rhe_of_int)

lemma rhe_unique: "round_half_even q = n" if "\<bar>q - of_int n\<bar> < 1 / 2"
proof -
  from that have "\<lfloor>q\<rfloor> = n \<and> q - of_int n < 1 / 2 \<or> \<lfloor>q\<rfloor> = n - 1 \<and> q - of_int (n - 1) > 1 / 2"
    by (auto simp: floor_eq_iff abs_less_iff)
  then show ?thesis
    by (auto simp: round_half_even_def Let_def)
qed

lemma two_powr_pos: "0 < (2::real) powr y"
  by simp

lemma floor_log2_bounds:
  assumes "x \<noteq> 0"
  shows "2 powr of_int \<lfloor>log 2 \<bar>x\<bar>\<rfloor> \<le> \<bar>x\<bar>" and "\<bar>x\<bar> < 2 powr of_int (\<lfloor>log 2 \<bar>x\<bar>\<rfloor> + 1)"
  using assms floor_log_eq_powr_iff [of "\<bar>x\<bar>" 2 "\<lfloor>log 2 \<bar>x\<bar>\<rfloor>"] by simp_all

lemma ulp_exponent_upper:
  assumes "x \<noteq> 0"
  shows "\<bar>x\<bar> < 2 powr of_int (ulp_exponent x + 53)"
proof -
  have "\<lfloor>log 2 \<bar>x\<bar>\<rfloor> + 1 \<le> ulp_exponent x + 53"
    by (simp add: ulp_exponent_def)
  then have "(2::real) powr of_int (\<lfloor>log 2 \<bar>x\<bar>\<rfloor> + 1) \<le> 2 powr of_int (ulp_exponent x + 53)"
    by (intro powr_mono) simp_all
  with floor_log2_bounds(2) [OF assms] show ?thesis by linarith
qed

lemma ulp_exponent_lower:
  assumes "x \<noteq> 0" and "- 1074 < ulp_exponent x"
  shows "2 powr of_int (ulp_exponent x + 52) \<le> \<bar>x\<bar>"
proof -
  from assms(2) have "ulp_exponent x + 52 = \<lfloor>log 2 \<bar>x\<bar>\<rfloor>"
    by (simp add: ulp_exponent_def max_def split: if_splits)
  with floor_log2_bounds(1) [OF assms(1)] show ?thesis by simp
qed

lemma ulp_exponent_mono:
  assumes "x \<noteq> 0" and "\<bar>x\<bar> \<le> \<bar>y\<bar>"
  shows "ulp_exponent x \<le> ulp_exponent y"
proof -
  from assms have "log 2 \<bar>x\<bar> \<le> log 2 \<bar>y\<bar>"
    by simp
  then have "\<lfloor>log 2 \<bar>x\<bar>\<rfloor> \<le> \<lfloor>log 2 \<bar>y\<bar>\<rfloor>"
    by (rule floor_mono)
  then show ?thesis
    by (simp add: ulp_exponent_def)
qed

lemma round_double_minus: "round_double (- x) = - round_double x"
  by (simp add: round_double_def ulp_exponent_def sgn_minus)

lemma round_double_pos:
  assumes "0 < x"
  shows "round_double x
    = of_int (round_half_even (x / 2 powr of_int (ulp_exponent x))) * 2 powr of_int (ulp_exponent x)"
  using assms by (simp add: round_double_def)

lemma round_double_nonneg: "0 \<le> round_double x" if "0 \<le> x"
proof (cases "x = 0")
  case True
  then show ?thesis by (simp add: round_double_def)
next
  case False
  with that have pos: "0 < x" by simp
  have "0 \<le> round_half_even (x / 2 powr of_int (ulp_exponent x))"
    by (rule rhe_ge) (use pos in simp)
  then show ?thesis
    by (simp add: round_double_pos [OF pos])
qed

lemma round_double_mono_pos:
  assumes "0 < x" and "x \<le> y"
  shows "round_double x \<le> round_double y"
proof -
  from assms have ypos: "0 < y" by simp
  let ?e = "ulp_exponent x" and ?f = "ulp_exponent y"
  have ef: "?e \<le> ?f"
    using assms by (intro ulp_exponent_mono) simp_all
  show ?thesis
  proof (cases "?e = ?f")
    case True
    have "x / 2 powr of_int ?f \<le> y / 2 powr of_int ?f"
      using assms(2) by (simp add: divide_right_mono)
    then have "round_half_even (x / 2 powr of_int ?f) \<le> round_half_even (y / 2 powr of_int ?f)"
      by (rule rhe_mono)
    then have "real_of_int (round_half_even (x / 2 powr of_int ?f)) * 2 powr of_int ?f
        \<le> real_of_int (round_half_even (y / 2 powr of_int ?f)) * 2 powr of_int ?f"
      by (intro mult_right_mono) simp_all
    then show ?thesis
      by (simp add: round_double_pos [OF assms(1)] round_double_pos [OF ypos] True)
  next
    case False
    with ef have lt: "?e + 1 \<le> ?f" by simp
    then have big: "- 1074 < ?f"
      by (simp add: ulp_exponent_def [of x])
    have "x / 2 powr of_int ?e \<le> of_int (2 ^ 53)"
    proof -
      have "x < 2 powr of_int (?e + 53)"
        using ulp_exponent_upper [of x] assms(1) by simp
      also have "\<dots> = 2 ^ 53 * 2 powr of_int ?e"
        by (simp add: powr_add)
      finally show ?thesis
        by (simp add: divide_le_eq)
    qed
    then have "round_half_even (x / 2 powr of_int ?e) \<le> 2 ^ 53"
      by (rule rhe_le)
    then have "real_of_int (round_half_even (x / 2 powr of_int ?e)) \<le> of_int (2 ^ 53)"
      by (simp only: of_int_le_iff)
    then have "round_double x \<le> of_int (2 ^ 53) * 2 powr of_int ?e"
      unfolding round_double_pos [OF assms(1)] by (intro mult_right_mono) simp_all
    also have "\<dots> = 2 powr of_int (?e + 53)"
      by (simp add: powr_add)
    also have "\<dots> \<le> 2 powr of_int (?f + 52)"
      using lt by (intro powr_mono) simp_all
    also have "\<dots> \<le> round_double y"
    proof -
      have "2 powr of_int (?f + 52) \<le> y"
        using ulp_exponent_lower [of y] ypos big by simp
      moreover have p: "(2::real) powr of_int (?f + 52) = of_int (2 ^ 52) * 2 powr of_int ?f"
        by (simp add: powr_add)
      ultimately have "of_int (2 ^ 52) \<le> y / 2 powr of_int ?f"
        by (simp add: le_divide_eq)
      then have "2 ^ 52 \<le> round_half_even (y / 2 powr of_int ?f)"
        by (rule rhe_ge)
      then have "of_int (2 ^ 52) \<le> real_of_int (round_half_even (y / 2 powr of_int ?f))"
        by (simp only: of_int_le_iff)
      then have "of_int (2 ^ 52) * 2 powr of_int ?f \<le> round_double y"
        unfolding round_double_pos [OF ypos] by (intro mult_right_mono) simp_all
      then show ?thesis
        by (simp only: p)
    qed
    finally show ?thesis .
  qed
qed

lemma round_double_mono: "round_double x \<le> round_double y" if "x \<le> y"
proof -
  consider "0 < x" | "x \<le> 0" "0 \<le> y" | "y < 0"
    using that by linarith
  then show ?thesis
  proof cases
    case 1
    from 1 that show ?thesis by (rule round_double_mono_pos)
  next
    case 2
    have "round_double x \<le> 0"
      using round_double_nonneg [of "- x"] 2(1) by (simp add: round_double_minus)
    also have "0 \<le> round_double y"
      using 2(2) by (rule round_double_nonneg)
    finally show ?thesis .
  next
    case 3
    with that have "0 < - y" "- y \<le> - x" by simp_all
    then have "round_double (- y) \<le> round_double (- x)"
      by (rule round_double_mono_pos)
    then show ?thesis
      by (simp add: round_double_minus)
  qed
qed

lemma ulp_exponent_eq:
  assumes "2 powr of_int k \<le> \<bar>x\<bar>" and "\<bar>x\<bar> < 2 powr of_int (k + 1)" and "- 1022 \<le> k"
  shows "ulp_exponent x = k - 52"
proof -
  from assms(1) have "0 < \<bar>x\<bar>"
    using two_powr_pos [of "of_int k"] by linarith
  then have "\<lfloor>log 2 \<bar>x\<bar>\<rfloor> = k"
    using assms(1,2) by (simp add: floor_log_eq_powr_iff)
  with assms(3) show ?thesis
    by (simp add: ulp_exponent_def)
qed

lemma round_double_eval:
  assumes "2 powr of_int k \<le> \<bar>x\<bar>" and "\<bar>x\<bar> < 2 powr of_int (k + 1)" and "- 1022 \<le> k"
  shows "round_double x
    = sgn x * of_int (round_half_even (\<bar>x\<bar> / 2 powr of_int (k - 52))) * 2 powr of_int (k - 52)"
proof -
  from assms(1) have "x \<noteq> 0"
    using two_powr_pos [of "of_int k"] by auto
  then show ?thesis
    by (simp add: round_double_def ulp_exponent_eq [OF assms])
qed

lemma round_double_exact:
  assumes x: "x = of_int m * 2 powr of_int e"
    and less: "\<bar>x\<bar> < 2 powr of_int (e + 53)" and e: "- 1074 \<le> e"
  shows "round_double x = x"
proof (cases "x = 0")
  case True
  then show ?thesis by (simp add: round_double_def)
next
  case False
  let ?E = "ulp_exponent x"
  have "log 2 \<bar>x\<bar> < of_int (e + 53)"
    using False less by (simp add: log_less_iff)
  then have "\<lfloor>log 2 \<bar>x\<bar>\<rfloor> < e + 53"
    by (simp add: floor_less_iff)
  with e have le: "?E \<le> e"
    by (simp add: ulp_exponent_def)
  define n where "n = nat (e - ?E)"
  have e_eq: "e = ?E + int n"
    using le by (simp add: n_def)
  have pw: "(2::real) powr of_int e = 2 ^ n * 2 powr of_int ?E"
    by (subst e_eq) (simp add: powr_add powr_realpow)
  have "\<bar>x\<bar> / 2 powr of_int ?E = of_int (\<bar>m\<bar> * 2 ^ n)"
    by (subst x) (simp add: abs_mult pw)
  then have "round_half_even (\<bar>x\<bar> / 2 powr of_int ?E) = \<bar>m\<bar> * 2 ^ n"
    by (simp only: rhe_of_int)
  then have "round_double x = sgn x * (of_int (\<bar>m\<bar> * 2 ^ n) * 2 powr of_int ?E)"
    using False by (simp add: round_double_def)
  also have "of_int (\<bar>m\<bar> * 2 ^ n) * 2 powr of_int ?E = \<bar>x\<bar>"
    by (subst (2) x) (simp add: abs_mult pw)
  also have "sgn x * \<bar>x\<bar> = x"
    by (simp add: sgn_mult_abs)
  finally show ?thesis .
qed

lemma round_double_dyadic:
  assumes "\<bar>m\<bar> < 2 ^ 53" and "n \<le> 1074"
  shows "round_double (of_int m / 2 ^ n) = of_int m / 2 ^ n"
proof (rule round_double_exact [where m = m and e = "- int n"])
  show "real_of_int m / 2 ^ n = of_int m * 2 powr of_int (- int n)"
    by (simp add: powr_minus powr_realpow divide_inverse)
  have "\<bar>real_of_int m / 2 ^ n\<bar> = \<bar>of_int m\<bar> / 2 ^ n"
    by simp
  also have "\<dots> < 2 ^ 53 / 2 ^ n"
    using assms(1) by (intro divide_strict_right_mono) (simp_all flip: of_int_abs)
  also have "\<dots> = 2 powr of_int (- int n + 53)"
    by (simp add: powr_diff powr_realpow)
  finally show "\<bar>real_of_int m / 2 ^ n\<bar> < 2 powr of_int (- int n + 53)" .
  show "- 1074 \<le> - int n"
    using assms(2) by simp
qed

lemma round_double_0: "round_double 0 = 0"
  by (simp add: round_double_def)

lemma round_double_1: "round_double 1 = 1"
  using round_double_dyadic [of 1 0] by simp

lemma round_double_numeral:
  "round_double (numeral n) = numeral n" if "(numeral n :: int) < 2 ^ 53"
  using round_double_dyadic [of "numeral n" 0] that by simp

lemma round_double_neg_numeral:
  "round_double (- numeral n) = - numeral n" if "(numeral n :: int) < 2 ^ 53"
  using round_double_numeral [OF that] by (simp add: round_double_minus)

lemma round_double_quarter: "round_double (1 / 4) = 1 / 4"
  using round_double_dyadic [of 1 2] by simp

lemma round_double_dyadicI:
  assumes "x = of_int m / 2 ^ n" and "\<bar>m\<bar> < 2 ^ 53" and "n \<le> 1074" and "y = x"
  shows "round_double x = y"
  unfolding assms(4) unfolding assms(1) using assms(2,3) by (rule round_double_dyadic)

lemma round_double_nearI:
  assumes "2 powr of_int k \<le> x" and "x < 2 powr of_int (k + 1)" and "- 1022 \<le> k"
    and "\<bar>x / 2 powr of_int (k - 52) - of_int n\<bar> < 1 / 2"
    and "y = of_int n * 2 powr of_int (k - 52)"
  shows "round_double x = y"
proof -
  from assms(1) have pos: "0 < x"
    using two_powr_pos [of "of_int k"] by linarith
  then have "round_double x
      = sgn x * of_int (round_half_even (\<bar>x\<bar> / 2 powr of_int (k - 52))) * 2 powr of_int (k - 52)"
    using assms(1-3) by (intro round_double_eval) simp_all
  moreover have "round_half_even (\<bar>x\<bar> / 2 powr of_int (k - 52)) = n"
    using assms(4) pos by (intro rhe_unique) simp
  ultimately show ?thesis
    using pos assms(5) by simp
qed

lemma round_double_140: "round_double 140 = 140"
  by (simp add: round_double_numeral)

lemma not_near: "\<not> round_double x < 140" if "140 \<le> x"
  using round_double_mono [OF that] by (simp add: round_double_140)

lemma below_140:
  assumes "round_double y < 140"
  shows "round_double y \<le> 140 - 1 / 2 ^ 45"
proof -
  from assms have y: "y < 140"
    using not_near [of y] by linarith
  show ?thesis
  proof (cases "y < 128")
    case True
    then have "round_double y \<le> round_double 128"
      by (intro round_double_mono) simp
    then show ?thesis
      by (simp add: round_double_numeral)
  next
    case False
    with y have "round_double y
        = sgn y * of_int (round_half_even (\<bar>y\<bar> / 2 powr of_int (7 - 52))) * 2 powr of_int (7 - 52)"
      by (intro round_double_eval) simp_all
    with False have eq: "round_double y
        = of_int (round_half_even (y / 2 powr (- 45))) / 2 ^ 45"
      by (simp add: powr_neg_numeral)
    with assms have "real_of_int (round_half_even (y / 2 powr (- 45))) < of_int (140 * 2 ^ 45)"
      by (simp add: divide_less_eq)
    then have "round_half_even (y / 2 powr (- 45)) < 140 * 2 ^ 45"
      by (simp only: of_int_less_iff)
    then have "round_half_even (y / 2 powr (- 45)) \<le> 140 * 2 ^ 45 - 1"
      by simp
    then have "real_of_int (round_half_even (y / 2 powr (- 45))) \<le> of_int (140 * 2 ^ 45 - 1)"
      by (simp only: of_int_le_iff)
    then show ?thesis
      by (simp add: eq divide_le_eq)
  qed
qed

lemma round_below_one: "round_double ((140 - 1 / 2 ^ 45) / 140) = 1 - 1 / 2 ^ 52"
  by (rule round_double_nearI [where k = "- 1" and n = "2 ^ 53 - 2"])
    (simp_all add: powr_neg_numeral abs_less_iff)

text \<open>
  A tie goes to the even significand, and below \<open>2 powr - 1022\<close> the grid is that of
  the subnormal numbers.
\<close>


lemma round_double_ties:
  "round_double (1 + 1 / 2 ^ 53) = 1"
  "round_double (1 + 3 / 2 ^ 53) = 1 + 1 / 2 ^ 51"
  using round_double_eval [of 0 "1 + 1 / 2 ^ 53"] round_double_eval [of 0 "1 + 3 / 2 ^ 53"]
  by (simp_all add: powr_neg_numeral round_half_even_def)

lemma round_double_subnormal:
  assumes "x \<noteq> 0" and "\<bar>x\<bar> < 2 powr (- 1022)"
  shows "round_double x = sgn x * of_int (round_half_even (\<bar>x\<bar> * 2 ^ 1074)) / 2 ^ 1074"
proof -
  from assms have "log 2 \<bar>x\<bar> < - 1022"
    by (simp add: log_less_iff)
  then have "\<lfloor>log 2 \<bar>x\<bar>\<rfloor> < - 1022"
    by (simp add: floor_less_iff)
  then have "ulp_exponent x = - 1074"
    unfolding ulp_exponent_def by arith
  with assms(1) show ?thesis
    by (simp add: round_double_def powr_neg_numeral)
qed

lemma round_double_underflow:
  "round_double (1 / 2 ^ 1075) = 0"
  "round_double (3 / 2 ^ 1075) = 1 / 2 ^ 1073"
  using round_double_subnormal [of "1 / 2 ^ 1075"] round_double_subnormal [of "3 / 2 ^ 1075"]
  by (simp_all add: powr_neg_numeral round_half_even_def)

text \<open>
  The numbers of the examples: exact where the result is a binary64 number, rounded
  where it is not.
\<close>

lemma round_corner:
  "round_double (- (1 / 8)) = - (1 / 8)" "round_double (4801 / 8) = 4801 / 8"
  using round_double_dyadic [of "- 1" 3] round_double_dyadic [of 4801 3] by simp_all

lemma round_0_05: "round_double 0.05 = 3602879701896397 / 2 ^ 56"
  using round_double_eval [of "- 5" "0.05"]
  by (simp add: powr_neg_numeral round_half_even_def)

lemma round_0_3: "round_double 0.3 = 5404319552844595 / 2 ^ 54"
  using round_double_eval [of "- 2" "0.3"]
  by (simp add: powr_neg_numeral round_half_even_def)

lemma round_799_95:
  "round_double (800 - 3602879701896397 / 2 ^ 56) = 3518217306557645 / 2 ^ 42"
  using round_double_eval [of 9 "800 - 3602879701896397 / 2 ^ 56"]
  by (simp add: powr_neg_numeral round_half_even_def)

lemma round_800_25:
  "round_double (3518217306557645 / 2 ^ 42 + 5404319552844595 / 2 ^ 54) = 3201 / 4"
  using round_double_eval [of 9 "3518217306557645 / 2 ^ 42 + 5404319552844595 / 2 ^ 54"]
  by (simp add: powr_neg_numeral round_half_even_def)

lemma rightParticle_eq:
  "rightParticle =
     \<lparr>p_x = 3518217306557645 / 2 ^ 42, p_y = 300,
      p_vx = 5404319552844595 / 2 ^ 54, p_vy = 0,
      p_radius = 2, p_opacity = 0.5, p_color = ''#7b2cbf''\<rparr>"
  unfolding rightParticle_def round_0_05 round_0_3 round_799_95 ..

lemma round_grazing: "round_double (799.75 + (0.25 + 1 / 2 ^ 54)) = 800"
  using round_double_eval [of 9 "799.75 + (0.25 + 1 / 2 ^ 54)"]
  by (simp add: powr_neg_numeral round_half_even_def)

subsection \<open>Auxiliary facts\<close>

lemma updateParticle_x:
  "p_x (updateParticle rd w h p) =
     (if rd (p_x p + p_vx p) < 0 then real w
      else if rd (p_x p + p_vx p) > real w then 0 else rd (p_x p + p_vx p))"
  by (simp add: updateParticle_def Let_def)

lemma updateParticle_y:
  "p_y (updateParticle rd w h p) =
     (if rd (p_y p + p_vy p) < 0 then real h
      else if rd (p_y p + p_vy p) > real h then 0 else rd (p_y p + p_vy p))"
  by (simp add: updateParticle_def Let_def)

lemma updateParticle_attributes: "attributes (updateParticle rd w h p) = attributes p"
  by (simp add: updateParticle_def attributes_def Let_def)

lemma updateLoop_map: "updateLoop rd w h ps = map (updateParticle rd w h) ps"
  by (induction ps) simp_all

lemma particles_updateParticles:
  "particles (updateParticles rd s) =
     map (updateParticle rd (canvas_width s) (canvas_height s)) (particles s)"
  by (simp add: updateParticles_def updateLoop_map)

lemma canvas_updateParticles:
  "canvas_width (updateParticles rd s) = canvas_width s"
  "canvas_height (updateParticles rd s) = canvas_height s"
  by (simp_all add: updateParticles_def)

lemma fst_animate: "fst (animate rd s) = updateParticles rd s"
  by (simp add: animate_def Let_def)

lemma sqrt_25: "sqrt 25 = 5"
  using real_sqrt_abs [of 5] by simp

lemma right_wrapped: "p_x (updateParticle round_double 800 600 rightParticle) = 0"
  by (simp only: rightParticle_eq updateParticle_x particle.select_convs round_800_25) simp

lemma corner_updated:
  "particles (updateParticles round_double cornerState)
     = [cornerParticle\<lparr>p_x := 800, p_y := 0\<rparr>]"
  by (simp add: particles_updateParticles cornerState_def cornerParticle_def
      updateParticle_def round_corner)

lemma right_updated: "p_x (particles (updateParticles round_double rightState) ! 0) = 0"
  by (simp add: particles_updateParticles rightState_def right_wrapped)

lemma linkBody_eq:
  "linkBody rd a b =
     (if computed_distance rd a b < 140
      then [StrokeStyle ''0, 212, 255''
              (rd (rd (1 - rd (computed_distance rd a b / 140)) * 0.25)),
            LineWidth 0.5, BeginPath, MoveTo (p_x a) (p_y a), LineTo (p_x b) (p_y b), Stroke]
      else [])"
  by (simp add: linkBody_def computed_distance_def MAX_DISTANCE_def Let_def)

lemma computed_distance_exact: "computed_distance (\<lambda>x. x) a b = distance a b"
  by (simp add: computed_distance_def distance_def power2_eq_square)

lemma computed_distance_sym:
  "computed_distance round_double a b = computed_distance round_double b a"
proof -
  have "round_double (p_x b - p_x a) = - round_double (p_x a - p_x b)"
    "round_double (p_y b - p_y a) = - round_double (p_y a - p_y b)"
    using round_double_minus [of "p_x a - p_x b"] round_double_minus [of "p_y a - p_y b"]
    by simp_all
  then show ?thesis
    by (simp add: computed_distance_def)
qed

lemma computed_distance_nonneg: "0 \<le> computed_distance round_double a b"
  unfolding computed_distance_def
  by (intro round_double_nonneg real_sqrt_ge_zero add_nonneg_nonneg) simp_all

lemma innerLoop_eq:
  "innerLoop rd ps i j = concat (map (\<lambda>j. linkBody rd (ps ! i) (ps ! j)) [j..<length ps])"
proof (induction rd ps i j rule: innerLoop.induct)
  case (1 rd ps i j)
  show ?case
  proof (cases "j < length ps")
    case True
    with 1 show ?thesis
      by (subst innerLoop.simps) (simp add: upt_conv_Cons)
  next
    case False
    then show ?thesis
      by (subst innerLoop.simps) simp
  qed
qed

lemma outerLoop_eq:
  "outerLoop rd ps i = concat (map (\<lambda>i. innerLoop rd ps i (i + 1)) [i..<length ps])"
proof (induction rd ps i rule: outerLoop.induct)
  case (1 rd ps i)
  show ?case
  proof (cases "i < length ps")
    case True
    with 1 show ?thesis
      by (subst outerLoop.simps) (simp add: upt_conv_Cons)
  next
    case False
    then show ?thesis
      by (subst outerLoop.simps) simp
  qed
qed

lemma concat_map_concat:
  "concat (map f (concat xss)) = concat (map (\<lambda>xs. concat (map f xs)) xss)"
  by (induction xss) simp_all

lemma outerLoop_pairs:
  "outerLoop rd ps 0
     = concat (map (\<lambda>(i, j). linkBody rd (ps ! i) (ps ! j)) (pairs (length ps)))"
  by (simp add: outerLoop_eq innerLoop_eq pairs_def concat_map_concat comp_def)

lemma distinct_pairs: "distinct (pairs n)"
  unfolding pairs_def
proof (rule distinct_concat)
  show "distinct (map (\<lambda>i. map (Pair i) [i + 1..<n]) [0..<n])"
  proof (simp add: distinct_map, rule inj_onI)
    fix x y
    assume "x \<in> {0..<n}" "y \<in> {0..<n}"
      and eq: "map (Pair x) [Suc x..<n] = map (Pair y) [Suc y..<n]"
    from eq have "length (map (Pair x) [Suc x..<n]) = length (map (Pair y) [Suc y..<n])"
      by simp
    with \<open>x \<in> {0..<n}\<close> \<open>y \<in> {0..<n}\<close> show "x = y" by simp
  qed
qed (auto simp: distinct_map inj_on_def)

lemma set_pairs: "set (pairs n) = {(i, j). i < j \<and> j < n}"
  by (force simp: pairs_def)

lemma circleLoop_no_stroke: "\<not> isStroke c" if "c \<in> set (circleLoop rd ps)"
  using that by (induction ps) (auto simp: circleBody_def Let_def)

lemma linkBody_no_fill: "\<not> isFill c" if "c \<in> set (linkBody rd a b)"
  using that by (auto simp: linkBody_eq split: if_splits)

lemma outerLoop_no_fill: "\<not> isFill c" if "c \<in> set (outerLoop rd ps i)"
  using that by (auto simp: outerLoop_eq innerLoop_eq dest: linkBody_no_fill)

lemma outerLoop_no_raf: "c \<noteq> RequestAnimationFrame" if "c \<in> set (outerLoop rd ps i)"
  using that by (auto simp: outerLoop_eq innerLoop_eq linkBody_eq split: if_splits)

lemma circleLoop_no_raf: "c \<noteq> RequestAnimationFrame" if "c \<in> set (circleLoop rd ps)"
  using that by (induction ps) (auto simp: circleBody_def Let_def)

lemma snd_animate:
  "snd (animate rd s) =
     ClearRect 0 0 (real (canvas_width s)) (real (canvas_height s))
       # circleLoop rd (particles (updateParticles rd s))
       @ outerLoop rd (particles (updateParticles rd s)) 0
       @ [RequestAnimationFrame]"
  by (simp add: animate_def Let_def drawParticles_def canvas_updateParticles)

lemma alpha_mono:
  assumes "d \<le> d'"
  shows "round_double (round_double (1 - round_double (d' / 140)) * 0.25)
       \<le> round_double (round_double (1 - round_double (d / 140)) * 0.25)"
proof -
  from assms have "round_double (d / 140) \<le> round_double (d' / 140)"
    by (intro round_double_mono) simp
  then have "round_double (1 - round_double (d' / 140)) \<le> round_double (1 - round_double (d / 140))"
    by (intro round_double_mono) simp
  then show ?thesis
    by (intro round_double_mono) simp
qed

lemma alpha_zero: "round_double (round_double (1 - round_double (0 / 140)) * 0.25) = 0.25"
  using round_double_quarter by (simp add: round_double_0 round_double_1)

lemma alpha_upper:
  assumes "0 \<le> d"
  shows "round_double (round_double (1 - round_double (d / 140)) * 0.25) \<le> 0.25"
  using alpha_mono [OF assms] alpha_zero by simp

lemma alpha_lower:
  assumes "d \<le> 140 - 1 / 2 ^ 45"
  shows "1 / 2 ^ 54 \<le> round_double (round_double (1 - round_double (d / 140)) * 0.25)"
proof -
  have r1: "round_double (1 - (1 - 1 / 2 ^ 52)) = 1 / 2 ^ 52"
    by (rule round_double_dyadicI [where m = 1 and n = 52]) simp_all
  have r2: "round_double (1 / 2 ^ 52 * 0.25) = 1 / 2 ^ 54"
    by (rule round_double_dyadicI [where m = 1 and n = 54]) simp_all
  have "round_double (round_double (1 - round_double ((140 - 1 / 2 ^ 45) / 140)) * 0.25)
      = 1 / 2 ^ 54"
    by (simp only: round_below_one r1 r2)
  with alpha_mono [OF assms] show ?thesis
    by simp
qed

lemma computed_distance_same:
  assumes "distance a b = 0"
  shows "computed_distance round_double a b = 0"
proof -
  from assms have "(p_x a - p_x b)\<^sup>2 + (p_y a - p_y b)\<^sup>2 = 0"
    by (simp add: distance_def)
  then have "p_x a - p_x b = 0" "p_y a - p_y b = 0"
    by (simp_all add: sum_power2_eq_zero_iff)
  then show ?thesis
    by (simp add: computed_distance_def round_double_0)
qed

lemma strokeAlphas_linkBody:
  "strokeAlphas (linkBody rd a b) =
     (if computed_distance rd a b < 140
      then [rd (rd (1 - rd (computed_distance rd a b / 140)) * 0.25)] else [])"
  by (simp add: linkBody_eq)

lemma distance_pair:
  "computed_distance round_double (stillParticle 100 100) (stillParticle 103 104) = 5"
proof -
  have r: "round_double (100 - 103) = - 3" "round_double (100 - 104) = - 4"
    "round_double (- 3 * - 3) = 9" "round_double (- 4 * - 4) = 16"
    "round_double (9 + 16) = 25" "round_double (sqrt 25) = 5"
    by (simp_all add: round_double_numeral round_double_neg_numeral sqrt_25)
  show ?thesis
    by (simp only: computed_distance_def stillParticle_def particle.select_convs r)
qed

lemma distance_far:
  "\<not> computed_distance round_double (stillParticle 100 100) (stillParticle 500 500) < 140"
  "\<not> computed_distance round_double (stillParticle 103 104) (stillParticle 500 500) < 140"
proof -
  have r: "round_double (100 - 500) = - 400" "round_double (- 400 * - 400) = 160000"
    "round_double (160000 + 160000) = 320000"
    "round_double (103 - 500) = - 397" "round_double (104 - 500) = - 396"
    "round_double (- 397 * - 397) = 157609" "round_double (- 396 * - 396) = 156816"
    "round_double (157609 + 156816) = 314425"
    by (simp_all add: round_double_numeral round_double_neg_numeral)
  have "(140::real) \<le> sqrt 320000" "(140::real) \<le> sqrt 314425"
    by (rule real_le_rsqrt; simp)+
  then have f: "\<not> round_double (sqrt 320000) < 140" "\<not> round_double (sqrt 314425) < 140"
    by (simp_all add: not_near)
  show
    "\<not> computed_distance round_double (stillParticle 100 100) (stillParticle 500 500) < 140"
    "\<not> computed_distance round_double (stillParticle 103 104) (stillParticle 500 500) < 140"
    by (simp_all only: computed_distance_def stillParticle_def particle.select_convs r f
        not_False_eq_True)
qed

lemma pair_updated: "particles (updateParticles round_double pairState) = particles pairState"
  by (simp add: particles_updateParticles pairState_def stillParticle_def updateParticle_def
      round_double_numeral)

lemma pair_links:
  "outerLoop round_double (particles pairState) 0
     = linkBody round_double (stillParticle 100 100) (stillParticle 103 104)"
proof -
  have "outerLoop round_double (particles pairState) 0
      = linkBody round_double (stillParticle 100 100) (stillParticle 103 104)
        @ linkBody round_double (stillParticle 100 100) (stillParticle 500 500)
        @ linkBody round_double (stillParticle 103 104) (stillParticle 500 500)"
    by (simp add: outerLoop_eq innerLoop_eq pairState_def upt_rec)
  then show ?thesis
    by (simp add: linkBody_eq [of _ _ "stillParticle 500 500"] distance_far)
qed

lemma distance_threshold:
  "computed_distance round_double (stillParticle 0 0) thresholdParticle = 140"
proof -
  have r1: "round_double (0 - 84) = - 84"
    by (simp add: round_double_neg_numeral)
  have r2: "round_double (0 - (112 - 1 / 2 ^ 46)) = - (112 - 1 / 2 ^ 46)"
    by (rule round_double_dyadicI [where m = "- 7881299347898367" and n = 46]) simp_all
  have r3: "round_double (- 84 * - 84) = 7056"
    by (simp add: round_double_numeral)
  have r4: "round_double (- (112 - 1 / 2 ^ 46) * - (112 - 1 / 2 ^ 46)) = 12544 - 1 / 2 ^ 38"
    by (rule round_double_nearI [where k = 13 and n = "12544 * 2 ^ 39 - 2"])
      (simp_all add: powr_neg_numeral abs_less_iff)
  have r5: "round_double (7056 + (12544 - 1 / 2 ^ 38)) = 19600 - 1 / 2 ^ 38"
    by (rule round_double_dyadicI [where m = "19600 * 2 ^ 38 - 1" and n = 38]) simp_all
  have lo: "140 - 1 / 2 ^ 46 < sqrt (19600 - 1 / 2 ^ 38)"
    by (rule real_less_rsqrt) (simp add: power2_eq_square)
  have hi: "sqrt (19600 - 1 / 2 ^ 38) < 140"
    by (rule real_less_lsqrt) simp_all
  have r6: "round_double (sqrt (19600 - 1 / 2 ^ 38)) = 140"
    using lo hi
    by (intro round_double_nearI [where k = 7 and n = "140 * 2 ^ 45"])
      (simp_all add: powr_neg_numeral abs_less_iff field_simps)
  show ?thesis
    by (simp only: computed_distance_def thresholdParticle_def stillParticle_def
        particle.select_convs r1 r2 r3 r4 r5 r6)
qed

lemma distance_tiny:
  "computed_distance round_double (stillParticle 0 0) tinyParticle = 35 / 2 ^ 58"
proof -
  have r1: "round_double (0 - 35 / 2 ^ 58) = - (35 / 2 ^ 58)"
    by (rule round_double_dyadicI [where m = "- 35" and n = 58]) simp_all
  have r2: "round_double (0 - 0) = 0"
    by (simp add: round_double_0)
  have r3: "round_double (- (35 / 2 ^ 58) * - (35 / 2 ^ 58)) = 1225 / 2 ^ 116"
    by (rule round_double_dyadicI [where m = 1225 and n = 116]) simp_all
  have r4: "round_double (0 * 0) = 0"
    by (simp add: round_double_0)
  have r5: "round_double (1225 / 2 ^ 116 + 0) = 1225 / 2 ^ 116"
    by (rule round_double_dyadicI [where m = 1225 and n = 116]) simp_all
  have root: "sqrt (1225 / 2 ^ 116) = 35 / 2 ^ 58"
    by (rule real_sqrt_unique) (simp_all add: power2_eq_square)
  have "round_double (35 / 2 ^ 58) = 35 / 2 ^ 58"
    by (rule round_double_dyadicI [where m = 35 and n = 58]) simp_all
  then have r6: "round_double (sqrt (1225 / 2 ^ 116)) = 35 / 2 ^ 58"
    by (simp only: root)
  show ?thesis
    by (simp only: computed_distance_def tinyParticle_def stillParticle_def
        particle.select_convs r1 r2 r3 r4 r5 r6)
qed

lemma alpha_tiny:
  "round_double (round_double (1 - round_double (35 / 2 ^ 58 / 140)) * 0.25) = 0.25"
proof -
  have r1: "round_double (35 / 2 ^ 58 / 140) = 1 / 2 ^ 60"
    by (rule round_double_dyadicI [where m = 1 and n = 60]) simp_all
  have r2: "round_double (1 - 1 / 2 ^ 60) = 1"
    by (rule round_double_nearI [where k = "- 1" and n = "2 ^ 53"])
      (simp_all add: powr_neg_numeral abs_less_iff)
  have r3: "round_double (1 * 0.25) = 0.25"
    using round_double_quarter by simp
  show ?thesis
    by (simp only: r1 r2 r3)
qed

lemma step_attributes:
  "map attributes (particles (step rd s e)) = map attributes (particles s)"
  by (cases e)
    (simp_all add: fst_animate particles_updateParticles resizeCanvas_def
      updateParticle_attributes comp_def)

lemma run_attributes:
  "map attributes (particles (run rd s es)) = map attributes (particles s)"
  by (induction es arbitrary: s) (simp_all add: step_attributes)

lemma length_createLoop:
  "length (createLoop rd rnd w h i ps) = length ps + (NUM_PARTICLES - i)"
proof (induction rd rnd w h i ps rule: createLoop.induct)
  case (1 rd rnd w h i ps)
  show ?case
  proof (cases "i < NUM_PARTICLES")
    case True
    with 1 show ?thesis
      by (subst createLoop.simps) simp
  next
    case False
    then show ?thesis
      by (subst createLoop.simps) simp
  qed
qed

lemma length_step: "length (particles (step rd s e)) = length (particles s)"
  by (cases e) (simp_all add: fst_animate particles_updateParticles resizeCanvas_def)

lemma length_run: "length (particles (run rd s es)) = length (particles s)"
  by (induction es arbitrary: s) (simp_all add: length_step)

subsection \<open>The per-frame update\<close>

text \<open>
  Claim C1 as written: after \<^verbatim>\<open>updateParticles\<close> every particle has
  \<open>0 \<le> x < width\<close> and \<open>0 \<le> y < height\<close>. It fails: \<open>cornerParticle\<close> starts inside
  the box at \<open>x = 0.125\<close> and moves left by \<open>0.25\<close>, so \<^verbatim>\<open>p.x < 0\<close> holds and
  \<^verbatim>\<open>p.x = canvas.width\<close> puts it on the right edge itself, \<open>x = 800 = width\<close>.
\<close>

theorem bounds_half_open_counterexample:
  "\<not> (0 \<le> p_x (particles (updateParticles round_double cornerState) ! 0)
      \<and> p_x (particles (updateParticles round_double cornerState) ! 0)
          < real (canvas_width (updateParticles round_double cornerState))
      \<and> 0 \<le> p_y (particles (updateParticles round_double cornerState) ! 0)
      \<and> p_y (particles (updateParticles round_double cornerState) ! 0)
          < real (canvas_height (updateParticles round_double cornerState)))"
  by (simp add: particles_updateParticles canvas_updateParticles updateParticle_x
      cornerState_def cornerParticle_def round_corner)

text \<open>
  Claim C1, amended: after every call of \<^verbatim>\<open>updateParticles\<close> every particle lies in the
  closed box, \<open>0 \<le> x \<le> width\<close> and \<open>0 \<le> y \<le> height\<close>, whatever its position and
  velocity were before the call and however the two sums are rounded.
\<close>

theorem bounds_closed:
  assumes "p \<in> set (particles (updateParticles rd s))"
  shows "0 \<le> p_x p \<and> p_x p \<le> real (canvas_width (updateParticles rd s))
       \<and> 0 \<le> p_y p \<and> p_y p \<le> real (canvas_height (updateParticles rd s))"
proof -
  from assms obtain q where p: "p = updateParticle rd (canvas_width s) (canvas_height s) q"
    by (auto simp: particles_updateParticles)
  show ?thesis
    by (simp add: p canvas_updateParticles updateParticle_x updateParticle_y)
qed

theorem bounds_closed_witness:
  "cornerParticle\<lparr>p_x := 800, p_y := 0\<rparr>
     \<in> set (particles (updateParticles round_double cornerState))
   \<and> 0 \<le> p_x (cornerParticle\<lparr>p_x := 800, p_y := 0\<rparr>)
   \<and> p_x (cornerParticle\<lparr>p_x := 800, p_y := 0\<rparr>)
       \<le> real (canvas_width (updateParticles round_double cornerState))
   \<and> 0 \<le> p_y (cornerParticle\<lparr>p_x := 800, p_y := 0\<rparr>)
   \<and> p_y (cornerParticle\<lparr>p_x := 800, p_y := 0\<rparr>)
       \<le> real (canvas_height (updateParticles round_double cornerState))"
proof -
  have mem: "cornerParticle\<lparr>p_x := 800, p_y := 0\<rparr>
      \<in> set (particles (updateParticles round_double cornerState))"
    by (simp add: corner_updated)
  from bounds_closed [OF mem] mem show ?thesis by simp
qed

text \<open>
  Claim C2 as written: a particle at \<open>x = width - 0.05\<close> with \<open>vx = 0.3\<close> is at
  \<open>x = 0.25\<close> after one update. It fails on the 800 wide canvas: the stored sum
  \<open>800.25\<close> exceeds the width and \<^verbatim>\<open>p.x = 0\<close> discards the overshoot.
\<close>

theorem wrap_value_counterexample:
  "p_x rightParticle = round_double (real (canvas_width rightState) - round_double 0.05)
   \<and> p_vx rightParticle = round_double 0.3
   \<and> particles rightState = [rightParticle]
   \<and> p_x (particles (updateParticles round_double rightState) ! 0) \<noteq> 0.25"
  by (simp add: right_updated) (simp add: rightState_def rightParticle_def)

text \<open>
  Claim C2, amended: a particle at \<open>x = width - 0.05\<close> with \<open>vx = 0.3\<close> is at
  \<open>x = 0\<close> exactly after one update (a value in \<open>[0, 0.3)\<close>, not \<open>0.25\<close>), on a
  canvas of any width. The position, the velocity and the stored sum may each be off by
  a rounding error \<open>\<delta>\<close> below one twelfth; with \<open>\<delta> = 0\<close> and no rounding this is the
  statement in exact arithmetic, and in binary64 at width 800 the three errors are below
  \<open>1 / 2 ^ 40\<close>.
\<close>

theorem wrap_value_zero:
  assumes "i < length (particles s)"
    and "\<bar>p_x (particles s ! i) - (real (canvas_width s) - 0.05)\<bar> \<le> \<delta>"
    and "\<bar>p_vx (particles s ! i) - 0.3\<bar> \<le> \<delta>"
    and "\<bar>rd (p_x (particles s ! i) + p_vx (particles s ! i))
          - (p_x (particles s ! i) + p_vx (particles s ! i))\<bar> \<le> \<delta>"
    and "\<delta> < 1 / 12"
  shows "p_x (particles (updateParticles rd s) ! i) = 0"
proof -
  from assms(2-5)
  have "real (canvas_width s) < rd (p_x (particles s ! i) + p_vx (particles s ! i))"
    by (simp add: abs_le_iff)
  with assms(1) show ?thesis
    by (simp add: particles_updateParticles updateParticle_x)
qed

theorem wrap_value_zero_witness:
  "0 < length (particles rightState)
   \<and> \<bar>p_x (particles rightState ! 0) - (real (canvas_width rightState) - 0.05)\<bar> \<le> 1 / 2 ^ 40
   \<and> \<bar>p_vx (particles rightState ! 0) - 0.3\<bar> \<le> 1 / 2 ^ 40
   \<and> \<bar>round_double (p_x (particles rightState ! 0) + p_vx (particles rightState ! 0))
          - (p_x (particles rightState ! 0) + p_vx (particles rightState ! 0))\<bar> \<le> 1 / 2 ^ 40
   \<and> (1 / 2 ^ 40 :: real) < 1 / 12
   \<and> p_x (particles (updateParticles round_double rightState) ! 0) = 0"
proof -
  have a: "0 < length (particles rightState)"
    by (simp add: rightState_def)
  have b: "\<bar>p_x (particles rightState ! 0) - (real (canvas_width rightState) - 0.05)\<bar>
      \<le> 1 / 2 ^ 40"
    by (simp add: rightState_def rightParticle_eq)
  have c: "\<bar>p_vx (particles rightState ! 0) - 0.3\<bar> \<le> 1 / 2 ^ 40"
    by (simp add: rightState_def rightParticle_eq)
  have "round_double (p_x (particles rightState ! 0) + p_vx (particles rightState ! 0))
      = 3201 / 4"
    by (simp only: rightState_def rightParticle_eq state.select_convs nth_Cons_0
        particle.select_convs round_800_25)
  then have d: "\<bar>round_double (p_x (particles rightState ! 0) + p_vx (particles rightState ! 0))
          - (p_x (particles rightState ! 0) + p_vx (particles rightState ! 0))\<bar> \<le> 1 / 2 ^ 40"
    by (simp add: rightState_def rightParticle_eq)
  have e: "(1 / 2 ^ 40 :: real) < 1 / 12"
    by simp
  from wrap_value_zero [where rd = round_double, OF a b c d e] a b c d e show ?thesis
    by blast
qed

text \<open>
  Claim C3: \<^verbatim>\<open>updateParticles\<close> adds to each coordinate of every particle its velocity
  component and stores the sum; then, on each axis by itself, a stored sum below 0 is
  replaced by the canvas dimension of that axis and a stored sum above the dimension by
  0, and any other is kept. Nothing else of a particle changes, for every rounding of the
  sums. Both axes can wrap in one frame: in binary64 \<open>cornerParticle\<close> goes to
  \<open>x = width\<close> and \<open>y = 0\<close>.
\<close>

theorem wraparound_rule:
  "particles (updateParticles rd s) =
     map (\<lambda>p. p\<lparr>p_x := (if rd (p_x p + p_vx p) < 0 then real (canvas_width s)
                         else if rd (p_x p + p_vx p) > real (canvas_width s) then 0
                         else rd (p_x p + p_vx p)),
                 p_y := (if rd (p_y p + p_vy p) < 0 then real (canvas_height s)
                         else if rd (p_y p + p_vy p) > real (canvas_height s) then 0
                         else rd (p_y p + p_vy p))\<rparr>)
       (particles s)
   \<and> particles (updateParticles round_double cornerState)
       = [cornerParticle\<lparr>p_x := real (canvas_width cornerState), p_y := 0\<rparr>]"
proof
  show "particles (updateParticles rd s) =
     map (\<lambda>p. p\<lparr>p_x := (if rd (p_x p + p_vx p) < 0 then real (canvas_width s)
                         else if rd (p_x p + p_vx p) > real (canvas_width s) then 0
                         else rd (p_x p + p_vx p)),
                 p_y := (if rd (p_y p + p_vy p) < 0 then real (canvas_height s)
                         else if rd (p_y p + p_vy p) > real (canvas_height s) then 0
                         else rd (p_y p + p_vy p))\<rparr>)
       (particles s)"
    unfolding particles_updateParticles
    by (rule map_cong [OF refl]) (simp add: updateParticle_def Let_def)
  show "particles (updateParticles round_double cornerState)
       = [cornerParticle\<lparr>p_x := real (canvas_width cornerState), p_y := 0\<rparr>]"
    by (simp add: corner_updated) (simp add: cornerState_def)
qed

text \<open>
  The checks read the stored sum, not the exact one: \<open>grazingParticle\<close> at
  \<open>799.75\<close> moves right by \<open>0.25 + 1 / 2 ^ 54\<close>, the exact sum exceeds the width 800,
  the binary64 sum is 800, and the particle stays on the edge.
\<close>

lemma grazing_not_wrapped:
  "real (canvas_width grazingState)
     < p_x (particles grazingState ! 0) + p_vx (particles grazingState ! 0)
   \<and> p_x (particles (updateParticles round_double grazingState) ! 0)
       = real (canvas_width grazingState)"
proof -
  have "p_x (updateParticle round_double 800 600 grazingParticle) = 800"
    by (simp only: grazingParticle_def updateParticle_x particle.select_convs round_grazing)
      simp
  then show ?thesis
    by (simp add: particles_updateParticles grazingState_def) (simp add: grazingParticle_def)
qed

text \<open>
  Claim C10: a particle that lies in the closed box \<open>[0, width] \<times> [0, height]\<close> and is
  no faster per axis than the box is wide or high lies in the closed box again after one
  update, for every rounding of the sums. A coordinate whose stored sum left the box is
  set to exactly the dimension (left below 0) or exactly 0 (left above the dimension); a
  stored sum equal to the dimension is kept, so the edge value is a fixed point of the
  two checks; and it is reached: in binary64 \<open>cornerParticle\<close> ends at \<open>x = width\<close>.
\<close>

theorem closed_interval_invariant:
  assumes "i < length (particles s)"
    and "\<bar>p_vx (particles s ! i)\<bar> \<le> real (canvas_width s)"
    and "\<bar>p_vy (particles s ! i)\<bar> \<le> real (canvas_height s)"
    and "0 \<le> p_x (particles s ! i)" and "p_x (particles s ! i) \<le> real (canvas_width s)"
    and "0 \<le> p_y (particles s ! i)" and "p_y (particles s ! i) \<le> real (canvas_height s)"
  shows "0 \<le> p_x (particles (updateParticles rd s) ! i)
       \<and> p_x (particles (updateParticles rd s) ! i) \<le> real (canvas_width s)
       \<and> 0 \<le> p_y (particles (updateParticles rd s) ! i)
       \<and> p_y (particles (updateParticles rd s) ! i) \<le> real (canvas_height s)
       \<and> (rd (p_x (particles s ! i) + p_vx (particles s ! i)) < 0
            \<longrightarrow> p_x (particles (updateParticles rd s) ! i) = real (canvas_width s))
       \<and> (rd (p_x (particles s ! i) + p_vx (particles s ! i)) > real (canvas_width s)
            \<longrightarrow> p_x (particles (updateParticles rd s) ! i) = 0)
       \<and> (rd (p_y (particles s ! i) + p_vy (particles s ! i)) < 0
            \<longrightarrow> p_y (particles (updateParticles rd s) ! i) = real (canvas_height s))
       \<and> (rd (p_y (particles s ! i) + p_vy (particles s ! i)) > real (canvas_height s)
            \<longrightarrow> p_y (particles (updateParticles rd s) ! i) = 0)
       \<and> (rd (p_x (particles s ! i) + p_vx (particles s ! i)) = real (canvas_width s)
            \<longrightarrow> p_x (particles (updateParticles rd s) ! i) = real (canvas_width s))
       \<and> (rd (p_y (particles s ! i) + p_vy (particles s ! i)) = real (canvas_height s)
            \<longrightarrow> p_y (particles (updateParticles rd s) ! i) = real (canvas_height s))
       \<and> p_x (particles (updateParticles round_double cornerState) ! 0)
           = real (canvas_width cornerState)"
proof -
  have "p_x (particles (updateParticles round_double cornerState) ! 0)
      = real (canvas_width cornerState)"
    by (simp add: corner_updated) (simp add: cornerState_def)
  with assms(1) show ?thesis
    by (simp add: particles_updateParticles updateParticle_x updateParticle_y)
qed

theorem closed_interval_invariant_witness:
  "0 < length (particles cornerState)
   \<and> \<bar>p_vx (particles cornerState ! 0)\<bar> \<le> real (canvas_width cornerState)
   \<and> \<bar>p_vy (particles cornerState ! 0)\<bar> \<le> real (canvas_height cornerState)
   \<and> 0 \<le> p_x (particles cornerState ! 0)
   \<and> p_x (particles cornerState ! 0) \<le> real (canvas_width cornerState)
   \<and> 0 \<le> p_y (particles cornerState ! 0)
   \<and> p_y (particles cornerState ! 0) \<le> real (canvas_height cornerState)
   \<and> round_double (p_x (particles cornerState ! 0) + p_vx (particles cornerState ! 0)) < 0
   \<and> p_x (particles (updateParticles round_double cornerState) ! 0)
       = real (canvas_width cornerState)
   \<and> round_double (p_y (particles cornerState ! 0) + p_vy (particles cornerState ! 0))
       > real (canvas_height cornerState)
   \<and> p_y (particles (updateParticles round_double cornerState) ! 0) = 0"
proof -
  have h: "0 < length (particles cornerState)"
    "\<bar>p_vx (particles cornerState ! 0)\<bar> \<le> real (canvas_width cornerState)"
    "\<bar>p_vy (particles cornerState ! 0)\<bar> \<le> real (canvas_height cornerState)"
    "0 \<le> p_x (particles cornerState ! 0)"
    "p_x (particles cornerState ! 0) \<le> real (canvas_width cornerState)"
    "0 \<le> p_y (particles cornerState ! 0)"
    "p_y (particles cornerState ! 0) \<le> real (canvas_height cornerState)"
    by (simp_all add: cornerState_def cornerParticle_def)
  have m: "round_double (p_x (particles cornerState ! 0) + p_vx (particles cornerState ! 0)) < 0"
    "round_double (p_y (particles cornerState ! 0) + p_vy (particles cornerState ! 0))
       > real (canvas_height cornerState)"
    by (simp_all add: cornerState_def cornerParticle_def round_corner)
  from closed_interval_invariant [where rd = round_double, OF h] h m show ?thesis by simp
qed

subsection \<open>Rendering and the frame\<close>

text \<open>
  Claim C4 as written: within a frame the links are drawn before the circles. It fails
  on \<open>pairState\<close>, where one link is drawn: its \<^verbatim>\<open>stroke()\<close> comes after the
  \<^verbatim>\<open>fill()\<close> of the circles.
\<close>

theorem frame_order_counterexample:
  "\<not> links_before_circles (snd (animate round_double pairState))"
  by (simp add: snd_animate pair_updated pair_links linkBody_eq distance_pair)
    (simp add: pairState_def circleBody_def links_before_circles_def)

text \<open>
  Claim C4, amended: one run of \<^verbatim>\<open>animate\<close> updates the positions, then clears the
  canvas and draws, from the updated state, first the circles of all particles and then
  the links, and last requests the next frame, once: no fill follows the first stroke,
  and \<^verbatim>\<open>requestAnimationFrame\<close> is called exactly once, as the last call.
\<close>

theorem frame_order:
  "animate rd s =
     (updateParticles rd s,
      ClearRect 0 0 (real (canvas_width s)) (real (canvas_height s))
        # circleLoop rd (particles (updateParticles rd s))
        @ outerLoop rd (particles (updateParticles rd s)) 0
        @ [RequestAnimationFrame])
   \<and> circles_before_links (snd (animate rd s))
   \<and> count_list (snd (animate rd s)) RequestAnimationFrame = 1
   \<and> last (snd (animate rd s)) = RequestAnimationFrame"
proof (intro conjI)
  show "animate rd s =
     (updateParticles rd s,
      ClearRect 0 0 (real (canvas_width s)) (real (canvas_height s))
        # circleLoop rd (particles (updateParticles rd s))
        @ outerLoop rd (particles (updateParticles rd s)) 0
        @ [RequestAnimationFrame])"
    by (simp add: animate_def Let_def drawParticles_def canvas_updateParticles)
  let ?cs = "circleLoop rd (particles (updateParticles rd s))"
  let ?ls = "outerLoop rd (particles (updateParticles rd s)) 0"
  have "dropWhile (\<lambda>c. \<not> isStroke c) (snd (animate rd s))
      = dropWhile (\<lambda>c. \<not> isStroke c) (?ls @ [RequestAnimationFrame])"
    by (simp add: snd_animate circleLoop_no_stroke)
  moreover have "\<not> isFill c" if "c \<in> set (?ls @ [RequestAnimationFrame])" for c
    using that by (auto dest: outerLoop_no_fill)
  ultimately show "circles_before_links (snd (animate rd s))"
    unfolding circles_before_links_def list_ex_iff
    by (metis set_dropWhileD)
  have "RequestAnimationFrame \<notin> set ?cs" "RequestAnimationFrame \<notin> set ?ls"
    using circleLoop_no_raf outerLoop_no_raf by blast+
  then show "count_list (snd (animate rd s)) RequestAnimationFrame = 1"
    by (simp add: snd_animate)
  show "last (snd (animate rd s)) = RequestAnimationFrame"
    by (simp add: snd_animate)
qed

text \<open>
  Claim C5 as written: a link is drawn if and only if the Euclidean distance of the two
  particles is below 140. It fails in binary64: the particle at the origin and
  \<open>thresholdParticle\<close> are less than 140 apart, the sum of the rounded squares is
  \<open>19600 - 1 / 2 ^ 38\<close>, its root rounds to 140, \<^verbatim>\<open>dist < MAX_DISTANCE\<close> is false and
  no link is drawn.
\<close>

theorem link_decision_counterexample:
  "distance (particles thresholdState ! 0) (particles thresholdState ! 1) < 140
   \<and> \<not> list_ex isStroke (drawParticles round_double thresholdState)"
proof
  have "(0 - 84)\<^sup>2 + (0 - (112 - 1 / 2 ^ 46))\<^sup>2 < (19600 :: real)"
    by (simp add: power2_eq_square)
  then have "sqrt ((0 - 84)\<^sup>2 + (0 - (112 - 1 / 2 ^ 46))\<^sup>2) < sqrt 19600"
    by (simp only: real_sqrt_less_iff)
  moreover have "sqrt 19600 = 140"
    using real_sqrt_abs [of 140] by simp
  ultimately show "distance (particles thresholdState ! 0) (particles thresholdState ! 1) < 140"
    by (simp add: thresholdState_def distance_def thresholdParticle_def stillParticle_def)
  have "outerLoop round_double (particles thresholdState) 0
      = linkBody round_double (stillParticle 0 0) thresholdParticle"
    by (simp add: outerLoop_eq innerLoop_eq thresholdState_def upt_rec)
  also have "\<dots> = []"
    by (simp add: linkBody_eq distance_threshold)
  finally show "\<not> list_ex isStroke (drawParticles round_double thresholdState)"
    by (simp add: drawParticles_def) (simp add: thresholdState_def circleBody_def)
qed

text \<open>
  Claim C5, amended: the two nested loops of \<^verbatim>\<open>drawParticles\<close> run the loop body once
  for each index pair \<open>(i, j)\<close> with \<open>i < j < particles.length\<close> and for no other pair
  (the list \<open>pairs\<close> has no duplicates and exactly these elements); the body draws the
  segment from \<open>a\<close> to \<open>b\<close>, with one \<^verbatim>\<open>stroke()\<close>, when the distance as the code
  computes it, every operation rounded, is strictly below 140 and makes no call
  otherwise; in binary64 the computed distance is symmetric; and without rounding it is
  the Euclidean distance.
\<close>

theorem link_decision:
  "drawParticles rd s =
     ClearRect 0 0 (real (canvas_width s)) (real (canvas_height s))
       # circleLoop rd (particles s)
       @ concat (map (\<lambda>(i, j). linkBody rd (particles s ! i) (particles s ! j))
           (pairs (length (particles s))))
   \<and> distinct (pairs n)
   \<and> set (pairs n) = {(i, j). i < j \<and> j < n}
   \<and> linkBody rd a b =
       (if computed_distance rd a b < 140
        then [StrokeStyle ''0, 212, 255''
                (rd (rd (1 - rd (computed_distance rd a b / 140)) * 0.25)),
              LineWidth 0.5, BeginPath, MoveTo (p_x a) (p_y a), LineTo (p_x b) (p_y b),
              Stroke]
        else [])
   \<and> computed_distance round_double a b = computed_distance round_double b a
   \<and> computed_distance (\<lambda>x. x) a b = distance a b"
proof (intro conjI)
  show "drawParticles rd s =
     ClearRect 0 0 (real (canvas_width s)) (real (canvas_height s))
       # circleLoop rd (particles s)
       @ concat (map (\<lambda>(i, j). linkBody rd (particles s ! i) (particles s ! j))
           (pairs (length (particles s))))"
    by (simp add: drawParticles_def outerLoop_pairs)
  show "distinct (pairs n)"
    by (rule distinct_pairs)
  show "set (pairs n) = {(i, j). i < j \<and> j < n}"
    by (rule set_pairs)
  show "linkBody rd a b =
       (if computed_distance rd a b < 140
        then [StrokeStyle ''0, 212, 255''
                (rd (rd (1 - rd (computed_distance rd a b / 140)) * 0.25)),
              LineWidth 0.5, BeginPath, MoveTo (p_x a) (p_y a), LineTo (p_x b) (p_y b),
              Stroke]
        else [])"
    by (rule linkBody_eq)
  show "computed_distance round_double a b = computed_distance round_double b a"
    by (rule computed_distance_sym)
  show "computed_distance (\<lambda>x. x) a b = distance a b"
    by (rule computed_distance_exact)
qed

text \<open>
  Claim C6 as written: the alpha of a drawn link is \<open>0.25\<close> only at distance 0 and
  strictly smaller for a greater distance. It fails in binary64 on \<open>tinyState\<close>: a
  particle at the origin and \<open>tinyParticle\<close> are \<open>35 / 2 ^ 58\<close> apart,
  \<^verbatim>\<open>dist / MAX_DISTANCE\<close> is \<open>1 / 2 ^ 60\<close>, \<^verbatim>\<open>1 - dist / MAX_DISTANCE\<close> rounds to 1,
  and their link is drawn with alpha \<open>0.25\<close>, as is the link of the two particles at
  the origin, at distance 0.
\<close>

theorem link_alpha_counterexample:
  "strokeAlphas (drawParticles round_double tinyState) = [0.25, 0.25, 0.25]
   \<and> distance (particles tinyState ! 0) (particles tinyState ! 1) = 0
   \<and> 0 < distance (particles tinyState ! 0) (particles tinyState ! 2)
   \<and> 0 < distance (particles tinyState ! 1) (particles tinyState ! 2)"
proof (intro conjI)
  have "outerLoop round_double (particles tinyState) 0
      = linkBody round_double (stillParticle 0 0) (stillParticle 0 0)
        @ linkBody round_double (stillParticle 0 0) tinyParticle
        @ linkBody round_double (stillParticle 0 0) tinyParticle"
    by (simp add: outerLoop_eq innerLoop_eq tinyState_def upt_rec)
  moreover have "distance (stillParticle 0 0) (stillParticle 0 0) = 0"
    by (simp add: distance_def)
  then have "strokeAlphas (linkBody round_double (stillParticle 0 0) (stillParticle 0 0))
      = [0.25]"
    using alpha_zero by (simp add: strokeAlphas_linkBody computed_distance_same)
  moreover have "strokeAlphas (linkBody round_double (stillParticle 0 0) tinyParticle) = [0.25]"
    using alpha_tiny by (simp add: strokeAlphas_linkBody distance_tiny)
  moreover have "strokeAlphas (cs @ ds) = strokeAlphas cs @ strokeAlphas ds" for cs ds
    by (induction cs rule: strokeAlphas.induct) simp_all
  ultimately show "strokeAlphas (drawParticles round_double tinyState) = [0.25, 0.25, 0.25]"
    by (simp add: drawParticles_def) (simp add: tinyState_def circleBody_def)
  show "distance (particles tinyState ! 0) (particles tinyState ! 1) = 0"
    by (simp add: tinyState_def distance_def)
  show "0 < distance (particles tinyState ! 0) (particles tinyState ! 2)"
    "0 < distance (particles tinyState ! 1) (particles tinyState ! 2)"
    by (simp_all add: tinyState_def distance_def tinyParticle_def stillParticle_def)
qed

text \<open>
  Claim C6, amended: in binary64, when the links of \<open>a, b\<close> and of \<open>c, d\<close> are drawn,
  with stroke alphas \<open>\<alpha>\<close> and \<open>\<beta>\<close>, then the computed distance \<open>d\<close> of \<open>a\<close> and \<open>b\<close> is
  below 140, \<open>\<alpha>\<close> is \<open>(1 - d / 140) * 0.25\<close> with every operation rounded,
  \<open>0 < \<alpha> \<le> 0.25\<close>, \<open>\<alpha> = 0.25\<close> when the two positions coincide, and the link of the
  pair whose computed distance is no smaller has an alpha that is no greater.
\<close>

theorem link_alpha:
  assumes "strokeAlphas (linkBody round_double a b) = [\<alpha>]"
    and "strokeAlphas (linkBody round_double c d) = [\<beta>]"
  shows "computed_distance round_double a b < 140
       \<and> \<alpha> = round_double
               (round_double (1 - round_double (computed_distance round_double a b / 140)) * 0.25)
       \<and> 0 < \<alpha> \<and> \<alpha> \<le> 0.25
       \<and> (distance a b = 0 \<longrightarrow> \<alpha> = 0.25)
       \<and> (computed_distance round_double a b \<le> computed_distance round_double c d
            \<longrightarrow> \<beta> \<le> \<alpha>)"
proof -
  let ?f = "\<lambda>d. round_double (round_double (1 - round_double (d / 140)) * 0.25)"
  let ?ab = "computed_distance round_double a b"
  let ?cd = "computed_distance round_double c d"
  from assms(1) have ab: "?ab < 140" "\<alpha> = ?f ?ab"
    by (auto simp: strokeAlphas_linkBody split: if_splits)
  from assms(2) have cd: "\<beta> = ?f ?cd"
    by (auto simp: strokeAlphas_linkBody split: if_splits)
  from ab(1) have "?ab \<le> 140 - 1 / 2 ^ 45"
    unfolding computed_distance_def by (rule below_140)
  then have "1 / 2 ^ 54 \<le> \<alpha>"
    unfolding ab(2) by (rule alpha_lower)
  then have pos: "0 < \<alpha>"
    by (rule less_le_trans [rotated]) simp
  have upper: "\<alpha> \<le> 0.25"
    unfolding ab(2) using computed_distance_nonneg by (rule alpha_upper)
  have zero: "distance a b = 0 \<longrightarrow> \<alpha> = 0.25"
    using alpha_zero by (auto simp: ab(2) computed_distance_same)
  have mono: "?ab \<le> ?cd \<longrightarrow> \<beta> \<le> \<alpha>"
    unfolding ab(2) cd using alpha_mono by blast
  from ab pos upper zero mono show ?thesis
    by blast
qed

theorem link_alpha_witness:
  "strokeAlphas (linkBody round_double (stillParticle 100 100) (stillParticle 100 100)) = [0.25]
   \<and> strokeAlphas (linkBody round_double (stillParticle 100 100) (stillParticle 103 104))
       = [round_double (round_double (1 - round_double (5 / 140)) * 0.25)]
   \<and> distance (stillParticle 100 100) (stillParticle 100 100) = 0
   \<and> computed_distance round_double (stillParticle 100 100) (stillParticle 100 100)
       \<le> computed_distance round_double (stillParticle 100 100) (stillParticle 103 104)
   \<and> (0 :: real) < 0.25
   \<and> round_double (round_double (1 - round_double (5 / 140)) * 0.25) \<le> 0.25"
proof -
  have z: "distance (stillParticle 100 100) (stillParticle 100 100) = 0"
    by (simp add: distance_def)
  have d0: "computed_distance round_double (stillParticle 100 100) (stillParticle 100 100) = 0"
    using z by (rule computed_distance_same)
  have a: "strokeAlphas (linkBody round_double (stillParticle 100 100) (stillParticle 100 100))
      = [0.25]"
    using alpha_zero by (simp add: strokeAlphas_linkBody d0)
  have b: "strokeAlphas (linkBody round_double (stillParticle 100 100) (stillParticle 103 104))
      = [round_double (round_double (1 - round_double (5 / 140)) * 0.25)]"
    by (simp add: strokeAlphas_linkBody distance_pair)
  have le: "computed_distance round_double (stillParticle 100 100) (stillParticle 100 100)
      \<le> computed_distance round_double (stillParticle 100 100) (stillParticle 103 104)"
    by (simp add: d0 distance_pair)
  from link_alpha [OF a b] a b z le show ?thesis
    by simp
qed

subsection \<open>Frame properties\<close>

text \<open>
  Claim C7: \<^verbatim>\<open>updateParticles\<close> leaves the velocity, radius, opacity and colour of every
  particle, the number of particles and the canvas size as they were; rendering changes
  no state (the state after \<^verbatim>\<open>animate\<close> is the one \<^verbatim>\<open>updateParticles\<close> returns);
  \<^verbatim>\<open>resizeCanvas\<close> leaves the particles alone; so these attributes stay as created over
  any sequence of frames and resizes.
\<close>

theorem immutability_frame:
  "map attributes (particles (updateParticles rd s)) = map attributes (particles s)
   \<and> canvas_width (updateParticles rd s) = canvas_width s
   \<and> canvas_height (updateParticles rd s) = canvas_height s
   \<and> fst (animate rd s) = updateParticles rd s
   \<and> particles (resizeCanvas innerWidth innerHeight s) = particles s
   \<and> map attributes (particles (run rd s es)) = map attributes (particles s)"
  by (simp add: particles_updateParticles updateParticle_attributes comp_def
      canvas_updateParticles fst_animate resizeCanvas_def run_attributes)

text \<open>
  Claim C8: \<^verbatim>\<open>resizeCanvas\<close> sets the canvas width and height to the window's inner size
  and leaves the particle array as it is; a resize to the dimensions the canvas already
  has leaves the whole state unchanged.
\<close>

theorem resize_frame:
  "particles (resizeCanvas innerWidth innerHeight s) = particles s
   \<and> canvas_width (resizeCanvas innerWidth innerHeight s) = innerWidth
   \<and> canvas_height (resizeCanvas innerWidth innerHeight s) = innerHeight
   \<and> resizeCanvas (canvas_width s) (canvas_height s) s = s"
  by (simp add: resizeCanvas_def)

text \<open>
  Claim C9: \<^verbatim>\<open>createParticles\<close> leaves exactly \<^verbatim>\<open>NUM_PARTICLES\<close> = 80 particles,
  whatever the random draws and the state before; \<^verbatim>\<open>updateParticles\<close> and a whole frame
  keep the length of the array; so the array has 80 elements after any sequence of
  frames and resizes that follows the creation.
\<close>

theorem count_invariant:
  "NUM_PARTICLES = 80
   \<and> length (particles (createParticles rd rnd s)) = NUM_PARTICLES
   \<and> length (particles (updateParticles rd s)) = length (particles s)
   \<and> length (particles (fst (animate rd s))) = length (particles s)
   \<and> length (particles (run rd (createParticles rd rnd s) es)) = NUM_PARTICLES"
  by (simp add: createParticles_def length_createLoop length_run fst_animate
      particles_updateParticles) (simp add: NUM_PARTICLES_def)

end
